theory Spec2Isabelle
  imports Complex_Main "HOL-Library.Char_ord" "HOL-Library.List_Lexorder"
    "HOL-Library.Monad_Syntax"
begin

section \<open>Python values, comparisons and time\<close>

text \<open>
  The columns \<open>conditions\<close> and \<open>context_data\<close> hold JSON objects. The keys read by the
  rule evaluation carry scalars: \<open>None\<close>, booleans, integers, floats and strings;
  arrays or objects as values of these keys are outside the model.

  A float is a finite value, read as the rational number it denotes, one of the two
  infinities, or NaN (\<open>json.loads\<close> accepts the literals \<open>NaN\<close>, \<open>Infinity\<close> and
  \<open>-Infinity\<close>). Python compares an integer with a float by their exact values, and a
  boolean counts as the integer 0 or 1.
\<close>

datatype pyfloat = Finite rat | PosInf | NegInf | NaN

datatype pyval = PNone | PBool bool | PInt int | PFloat pyfloat | PStr string

datatype py_error = TypeError

text \<open>
  The order and the equality of numbers: every comparison with NaN is false, also
  \<open>nan == nan\<close>; \<open>x <= y\<close> is \<open>x < y or x == y\<close>.
\<close>

fun float_lt :: "pyfloat \<Rightarrow> pyfloat \<Rightarrow> bool" where
  "float_lt NaN y = False"
| "float_lt x NaN = False"
| "float_lt (Finite x) (Finite y) = (x < y)"
| "float_lt NegInf NegInf = False"
| "float_lt NegInf y = True"
| "float_lt x NegInf = False"
| "float_lt PosInf y = False"
| "float_lt x PosInf = True"

definition float_eq :: "pyfloat \<Rightarrow> pyfloat \<Rightarrow> bool" where
  "float_eq x y = (x \<noteq> NaN \<and> x = y)"

definition float_le :: "pyfloat \<Rightarrow> pyfloat \<Rightarrow> bool" where
  "float_le x y = (float_lt x y \<or> float_eq x y)"

fun num_of :: "pyval \<Rightarrow> pyfloat option" where
  "num_of (PBool b) = Some (Finite (if b then 1 else 0))"
| "num_of (PInt i) = Some (Finite (of_int i))"
| "num_of (PFloat q) = Some q"
| "num_of PNone = None"
| "num_of (PStr s) = None"

text \<open>Python \<open>a == b\<close> and \<open>a != b\<close>: never raise on scalars.\<close>

definition py_eq :: "pyval \<Rightarrow> pyval \<Rightarrow> bool" where
  "py_eq a b =
     (case (num_of a, num_of b) of
        (Some x, Some y) \<Rightarrow> float_eq x y
      | (None, None) \<Rightarrow> a = b
      | _ \<Rightarrow> False)"

definition py_ne :: "pyval \<Rightarrow> pyval \<Rightarrow> bool" where
  "py_ne a b = (\<not> py_eq a b)"

text \<open>
  Python \<open><\<close>, \<open><=\<close>, \<open>>\<close>, \<open>>=\<close>: numbers are ordered by value (\<open>a > b\<close> is
  \<open>b < a\<close> and \<open>a >= b\<close> is \<open>b <= a\<close>), strings lexicographically by code point;
  every other pair of operands raises \<open>TypeError\<close>.
\<close>

definition py_lt :: "pyval \<Rightarrow> pyval \<Rightarrow> py_error + bool" where
  "py_lt a b =
     (case (num_of a, num_of b) of
        (Some x, Some y) \<Rightarrow> Inr (float_lt x y)
      | _ \<Rightarrow> (case (a, b) of (PStr s, PStr t) \<Rightarrow> Inr (s < t) | _ \<Rightarrow> Inl TypeError))"

definition py_le :: "pyval \<Rightarrow> pyval \<Rightarrow> py_error + bool" where
  "py_le a b =
     (case (num_of a, num_of b) of
        (Some x, Some y) \<Rightarrow> Inr (float_le x y)
      | _ \<Rightarrow> (case (a, b) of (PStr s, PStr t) \<Rightarrow> Inr (s \<le> t) | _ \<Rightarrow> Inl TypeError))"


definition py_ge :: "pyval \<Rightarrow> pyval \<Rightarrow> py_error + bool" where
  "py_ge a b =
     (case (num_of a, num_of b) of
        (Some x, Some y) \<Rightarrow> Inr (float_le y x)
      | _ \<Rightarrow> (case (a, b) of (PStr s, PStr t) \<Rightarrow> Inr (s \<ge> t) | _ \<Rightarrow> Inl TypeError))"

text \<open>\<open>d.get(k, default)\<close> on a dictionary.\<close>

definition dict_get :: "('k \<rightharpoonup> 'v) \<Rightarrow> 'k \<Rightarrow> 'v \<Rightarrow> 'v" where
  "dict_get d k dflt = (case d k of None \<Rightarrow> dflt | Some v \<Rightarrow> v)"

text \<open>
  A naive UTC \<open>datetime\<close> has microsecond resolution: it is modelled as the number of
  microseconds since a fixed epoch. \<open>(a - b).total_seconds() / 60\<close> is the difference in
  minutes, as an exact rational (the float of the source is its nearest double).
\<close>

type_synonym datetime = int

definition minutes_between :: "datetime \<Rightarrow> datetime \<Rightarrow> rat" where
  "minutes_between a b = of_int (a - b) / 1000000 / 60"

section \<open>models/alert.py: enumerations and rows\<close>

datatype AlertSeverity = INFO | WARNING | CRITICAL | EMERGENCY

datatype AlertStatus = ACTIVE | ACKNOWLEDGED | RESOLVED | SUPPRESSED

datatype AlertChannel = EMAIL | SLACK | SMS | WEBHOOK | IN_APP

text \<open>The \<open>.value\<close> of an enumeration member.\<close>

fun severity_value :: "AlertSeverity \<Rightarrow> string" where
  "severity_value INFO = ''info''"
| "severity_value WARNING = ''warning''"
| "severity_value CRITICAL = ''critical''"
| "severity_value EMERGENCY = ''emergency''"

fun status_value :: "AlertStatus \<Rightarrow> string" where
  "status_value ACTIVE = ''active''"
| "status_value ACKNOWLEDGED = ''acknowledged''"
| "status_value RESOLVED = ''resolved''"
| "status_value SUPPRESSED = ''suppressed''"

text \<open>
  A row of the table \<open>alerts\<close>. The column \<open>id\<close> is called \<open>ident\<close> here. The type
  \<open>'c\<close> is the free-form JSON snapshot in \<open>context_data\<close>. A column without a default
  that may be NULL is an \<open>option\<close>; \<open>status\<close>, \<open>created_at\<close> and \<open>updated_at\<close> are
  filled by their column defaults when the row is inserted.
\<close>

record 'c Alert =
  ident :: int
  alert_rule_id :: int
  title :: string
  message :: string
  severity :: AlertSeverity
  status :: AlertStatus
  context_data :: 'c
  source_type :: "string option"
  source_id :: "int option"
  created_at :: datetime
  updated_at :: datetime
  acknowledged_at :: "datetime option"
  resolved_at :: "datetime option"
  acknowledged_by :: "int option"
  resolved_by :: "int option"
  organization_id :: int
  created_by :: int
  pipeline_id :: "int option"

text \<open>
  The columns of \<open>alert_rules\<close> that \<open>should_trigger\<close> reads, and the relationship
  \<open>alerts\<close>. The flag \<open>is_active\<close> of a rule is called \<open>rule_is_active\<close> (the name
  \<open>is_active\<close> is the method of \<open>Alert\<close> below); it and \<open>cooldown_minutes\<close> may be NULL.
\<close>

record 'c AlertRule =
  rule_type :: string
  conditions :: "string \<rightharpoonup> pyval"
  cooldown_minutes :: "int option"
  rule_is_active :: "bool option"
  alerts :: "'c Alert list"

text \<open>
  A row of \<open>alert_history\<close>; its primary key is assigned by the database and is not
  part of the model.
\<close>

record AlertHistory =
  hist_alert_id :: int
  hist_action :: string
  hist_description :: "string option"
  hist_channel :: "AlertChannel option"
  hist_recipient :: "string option"
  hist_sent_at :: "datetime option"
  hist_success :: "bool option"
  hist_error_message :: "string option"
  hist_created_at :: datetime
  hist_created_by :: "int option"

section \<open>AlertRule: cooldown and condition evaluation\<close>

text \<open>
  \<open>max(self.alerts, key=lambda x: x.created_at)\<close>: the first alert whose
  \<open>created_at\<close> is not exceeded by any other.
\<close>

fun max_created_at :: "'c Alert \<Rightarrow> 'c Alert list \<Rightarrow> 'c Alert" where
  "max_created_at best [] = best"
| "max_created_at best (x # xs) =
     max_created_at (if created_at x > created_at best then x else best) xs"

definition get_last_alert :: "'c AlertRule \<Rightarrow> 'c Alert option" where
  "get_last_alert self =
     (case alerts self of [] \<Rightarrow> None | x # xs \<Rightarrow> Some (max_created_at x xs))"

text \<open>
  \<open>_evaluate_pipeline_conditions\<close>. Each check returns \<open>False\<close> at once when it fails;
  a comparison that raises ends the evaluation with the error.
\<close>

definition evaluate_pipeline_conditions ::
  "'c AlertRule \<Rightarrow> (string \<rightharpoonup> pyval) \<Rightarrow> py_error + bool" where
  "evaluate_pipeline_conditions self context =
     (let conds = conditions self;
          check_duration =
            (case conds ''duration_threshold'' of
               None \<Rightarrow> Inr True
             | Some th \<Rightarrow>
                 (case py_lt (dict_get context ''duration_seconds'' (PInt 0)) th of
                    Inl e \<Rightarrow> Inl e
                  | Inr b \<Rightarrow> if b then Inr False else Inr True));
          check_failure_count =
            (case conds ''failure_count'' of
               None \<Rightarrow> check_duration
             | Some n \<Rightarrow>
                 (case py_lt (dict_get context ''failure_count'' (PInt 0)) n of
                    Inl e \<Rightarrow> Inl e
                  | Inr b \<Rightarrow> if b then Inr False else check_duration))
      in case conds ''status'' of
           None \<Rightarrow> check_failure_count
         | Some s \<Rightarrow>
             if py_ne (dict_get context ''status'' PNone) s then Inr False
             else check_failure_count)"

text \<open>
  \<open>_evaluate_health_check_conditions\<close>. In \<open>operator == '>' and metric_value <= threshold\<close>
  the comparison runs only when the operator matches; the \<open>elif\<close> branches follow in the
  order of the source, and the chain has no \<open>else\<close>.
\<close>

definition evaluate_health_check_conditions ::
  "'c AlertRule \<Rightarrow> (string \<rightharpoonup> pyval) \<Rightarrow> py_error + bool" where
  "evaluate_health_check_conditions self context =
     (let conds = conditions self;
          check_metric =
            (case conds ''metric_threshold'' of
               None \<Rightarrow> Inr True
             | Some threshold \<Rightarrow>
                 (let metric_value = dict_get context ''metric_value'' (PInt 0);
                      operator = dict_get conds ''operator'' (PStr ''>'')
                  in case (if py_eq operator (PStr ''>'') then py_le metric_value threshold
                           else Inr False) of
                       Inl e \<Rightarrow> Inl e
                     | Inr True \<Rightarrow> Inr False
                     | Inr False \<Rightarrow>
                        (case (if py_eq operator (PStr ''<'') then py_ge metric_value threshold
                               else Inr False) of
                           Inl e \<Rightarrow> Inl e
                         | Inr True \<Rightarrow> Inr False
                         | Inr False \<Rightarrow>
                            (if py_eq operator (PStr ''=='') \<and> py_ne metric_value threshold
                             then Inr False
                             else Inr True))))
      in case conds ''status'' of
           None \<Rightarrow> check_metric
         | Some s \<Rightarrow>
             if py_ne (dict_get context ''status'' PNone) s then Inr False
             else check_metric)"

text \<open>\<open>_evaluate_custom_conditions\<close>: the placeholder of the source.\<close>

definition evaluate_custom_conditions ::
  "'c AlertRule \<Rightarrow> (string \<rightharpoonup> pyval) \<Rightarrow> py_error + bool" where
  "evaluate_custom_conditions self context = Inr True"

text \<open>
  \<open>should_trigger\<close>; \<open>now\<close> is the reading of \<open>datetime.utcnow()\<close> in the cooldown
  check; \<open>context\<close> is the argument \<open>context_data\<close> of the source.
  \<open>not self.is_active\<close> holds for \<open>False\<close> and for NULL, and
  \<open>if self.cooldown_minutes\<close> fails for 0 and for NULL.
\<close>

definition should_trigger ::
  "'c AlertRule \<Rightarrow> (string \<rightharpoonup> pyval) \<Rightarrow> datetime \<Rightarrow> py_error + bool" where
  "should_trigger self context now =
     (if rule_is_active self \<noteq> Some True then Inr False
      else if (case cooldown_minutes self of
                 None \<Rightarrow> False
               | Some m \<Rightarrow>
                   m \<noteq> 0 \<and>
                   (case get_last_alert self of
                      None \<Rightarrow> False
                    | Some last_alert \<Rightarrow>
                        minutes_between now (created_at last_alert) < of_int m))
      then Inr False
      else if rule_type self = ''pipeline_failure''
        then evaluate_pipeline_conditions self context
      else if rule_type self = ''health_check''
        then evaluate_health_check_conditions self context
      else if rule_type self = ''custom''
        then evaluate_custom_conditions self context
      else Inr False)"

section \<open>Alert: state, transitions, duration, serialisation\<close>

definition is_active :: "'c Alert \<Rightarrow> bool" where
  "is_active self = (status self = ACTIVE)"

definition is_acknowledged :: "'c Alert \<Rightarrow> bool" where
  "is_acknowledged self = (status self = ACKNOWLEDGED)"

definition is_resolved :: "'c Alert \<Rightarrow> bool" where
  "is_resolved self = (status self = RESOLVED)"

text \<open>
  \<open>acknowledge\<close> and \<open>resolve\<close> call \<open>datetime.utcnow()\<close> twice: \<open>now\<close> is the first
  reading and \<open>now'\<close> the second.
\<close>

definition acknowledge :: "'c Alert \<Rightarrow> int \<Rightarrow> datetime \<Rightarrow> datetime \<Rightarrow> 'c Alert" where
  "acknowledge self user_id now now' =
     self\<lparr>status := ACKNOWLEDGED,
          acknowledged_at := Some now,
          acknowledged_by := Some user_id,
          updated_at := now'\<rparr>"

definition resolve :: "'c Alert \<Rightarrow> int \<Rightarrow> datetime \<Rightarrow> datetime \<Rightarrow> 'c Alert" where
  "resolve self user_id now now' =
     self\<lparr>status := RESOLVED,
          resolved_at := Some now,
          resolved_by := Some user_id,
          updated_at := now'\<rparr>"

text \<open>\<open>get_duration_minutes\<close>; a \<open>datetime\<close> that is not NULL is true in a condition.\<close>

definition get_duration_minutes :: "'c Alert \<Rightarrow> datetime \<Rightarrow> rat" where
  "get_duration_minutes self now =
     (case (if is_resolved self then resolved_at self else None) of
        Some r \<Rightarrow> minutes_between r (created_at self)
      | None \<Rightarrow>
          (case (if is_acknowledged self then acknowledged_at self else None) of
             Some a \<Rightarrow> minutes_between a (created_at self)
           | None \<Rightarrow> minutes_between now (created_at self)))"

text \<open>
  A value of the dictionary that \<open>to_dict\<close> builds: a scalar, the \<open>isoformat()\<close> string
  of a \<open>datetime\<close> (kept as the \<open>datetime\<close> it prints), or the JSON of \<open>context_data\<close>.
\<close>

datatype 'c dict_value = Val pyval | Iso datetime | Data 'c

fun opt_int :: "int option \<Rightarrow> 'c dict_value" where
  "opt_int None = Val PNone"
| "opt_int (Some i) = Val (PInt i)"

fun opt_str :: "string option \<Rightarrow> 'c dict_value" where
  "opt_str None = Val PNone"
| "opt_str (Some s) = Val (PStr s)"

fun opt_iso :: "datetime option \<Rightarrow> 'c dict_value" where
  "opt_iso None = Val PNone"
| "opt_iso (Some t) = Iso t"

definition to_dict :: "'c Alert \<Rightarrow> datetime \<Rightarrow> (string \<rightharpoonup> 'c dict_value)" where
  "to_dict self now = map_of
     [(''id'', Val (PInt (ident self))),
      (''alert_rule_id'', Val (PInt (alert_rule_id self))),
      (''title'', Val (PStr (title self))),
      (''message'', Val (PStr (message self))),
      (''severity'', Val (PStr (severity_value (severity self)))),
      (''status'', Val (PStr (status_value (status self)))),
      (''context_data'', Data (context_data self)),
      (''source_type'', opt_str (source_type self)),
      (''source_id'', opt_int (source_id self)),
      (''organization_id'', Val (PInt (organization_id self))),
      (''created_by'', Val (PInt (created_by self))),
      (''pipeline_id'', opt_int (pipeline_id self)),
      (''is_active'', Val (PBool (is_active self))),
      (''is_acknowledged'', Val (PBool (is_acknowledged self))),
      (''is_resolved'', Val (PBool (is_resolved self))),
      (''duration_minutes'', Val (PFloat (Finite (get_duration_minutes self now)))),
      (''created_at'', Iso (created_at self)),
      (''updated_at'', Iso (updated_at self)),
      (''acknowledged_at'', opt_iso (acknowledged_at self)),
      (''resolved_at'', opt_iso (resolved_at self)),
      (''acknowledged_by'', opt_int (acknowledged_by self)),
      (''resolved_by'', opt_int (resolved_by self))]"

section \<open>api/alerts.py: the acknowledge and resolve handlers\<close>

text \<open>
  The session is the three tables the handlers touch. \<open>User.query.get\<close> and
  \<open>filter_by(...).first()\<close> are the first matching row; a commit writes the changed row
  back in its place and appends the new history row. A response is the error status with
  its message, or the message and the serialised alert of a 200.
\<close>

record Organization =
  org_ident :: int

record User =
  user_ident :: int
  username :: string
  organization :: "Organization option"

record 'c Database =
  users :: "User list"
  alert_rows :: "'c Alert list"
  history_rows :: "AlertHistory list"

datatype http_error = HTTPError nat string

fun update_first :: "('a \<Rightarrow> bool) \<Rightarrow> 'a \<Rightarrow> 'a list \<Rightarrow> 'a list" where
  "update_first P y [] = []"
| "update_first P y (x # xs) = (if P x then y # xs else x # update_first P y xs)"

definition get_current_user_org ::
  "'c Database \<Rightarrow> int \<Rightarrow> User option \<times> Organization option" where
  "get_current_user_org db current_user_id =
     (case find (\<lambda>u. user_ident u = current_user_id) (users db) of
        None \<Rightarrow> (None, None)
      | Some user \<Rightarrow> (Some user, organization user))"

text \<open>
  \<open>now1\<close> and \<open>now2\<close> are the readings of the clock inside \<open>Alert.acknowledge\<close>
  (\<open>Alert.resolve\<close>), \<open>now3\<close> the default of \<open>created_at\<close> of the history row, \<open>now4\<close>
  the reading available to \<open>to_dict\<close>. The commit is taken to succeed. The one
  exception that the \<open>try\<close> block of the model can raise is the attribute access
  \<open>user.id\<close> on a missing user; the handler answers it with the rollback and a 500.
\<close>

definition acknowledge_alert ::
  "'c Database \<Rightarrow> int \<Rightarrow> int \<Rightarrow> datetime \<Rightarrow> datetime \<Rightarrow> datetime \<Rightarrow> datetime \<Rightarrow>
     (http_error + string \<times> (string \<rightharpoonup> 'c dict_value)) \<times> 'c Database" where
  "acknowledge_alert db current_user_id alert_id now1 now2 now3 now4 =
     (case get_current_user_org db current_user_id of (user, org) \<Rightarrow>
        (case org of
           None \<Rightarrow> (Inl (HTTPError 404 ''Organization not found''), db)
         | Some org \<Rightarrow>
            (case find (\<lambda>a. ident a = alert_id \<and> organization_id a = org_ident org)
                    (alert_rows db) of
               None \<Rightarrow> (Inl (HTTPError 404 ''Alert not found''), db)
             | Some alert \<Rightarrow>
                 if is_acknowledged alert
                 then (Inl (HTTPError 400 ''Alert is already acknowledged''), db)
                 else
                   (case user of
                      None \<Rightarrow> (Inl (HTTPError 500 ''Failed to acknowledge alert''), db)
                    | Some user \<Rightarrow>
                        (let alert' = acknowledge alert (user_ident user) now1 now2;
                             history =
                               \<lparr>hist_alert_id = alert_id,
                                hist_action = ''acknowledged'',
                                hist_description =
                                  Some (''Alert acknowledged by '' @ username user),
                                hist_channel = None,
                                hist_recipient = None,
                                hist_sent_at = None,
                                hist_success = None,
                                hist_error_message = None,
                                hist_created_at = now3,
                                hist_created_by = Some (user_ident user)\<rparr>
                         in (Inr (''Alert acknowledged successfully'', to_dict alert' now4),
                             db\<lparr>alert_rows :=
                                  update_first
                                    (\<lambda>a. ident a = alert_id \<and>
                                         organization_id a = org_ident org)
                                    alert' (alert_rows db),
                                history_rows := history_rows db @ [history]\<rparr>))))))"

definition resolve_alert ::
  "'c Database \<Rightarrow> int \<Rightarrow> int \<Rightarrow> datetime \<Rightarrow> datetime \<Rightarrow> datetime \<Rightarrow> datetime \<Rightarrow>
     (http_error + string \<times> (string \<rightharpoonup> 'c dict_value)) \<times> 'c Database" where
  "resolve_alert db current_user_id alert_id now1 now2 now3 now4 =
     (case get_current_user_org db current_user_id of (user, org) \<Rightarrow>
        (case org of
           None \<Rightarrow> (Inl (HTTPError 404 ''Organization not found''), db)
         | Some org \<Rightarrow>
            (case find (\<lambda>a. ident a = alert_id \<and> organization_id a = org_ident org)
                    (alert_rows db) of
               None \<Rightarrow> (Inl (HTTPError 404 ''Alert not found''), db)
             | Some alert \<Rightarrow>
                 if is_resolved alert
                 then (Inl (HTTPError 400 ''Alert is already resolved''), db)
                 else
                   (case user of
                      None \<Rightarrow> (Inl (HTTPError 500 ''Failed to resolve alert''), db)
                    | Some user \<Rightarrow>
                        (let alert' = resolve alert (user_ident user) now1 now2;
                             history =
                               \<lparr>hist_alert_id = alert_id,
                                hist_action = ''resolved'',
                                hist_description =
                                  Some (''Alert resolved by '' @ username user),
                                hist_channel = None,
                                hist_recipient = None,
                                hist_sent_at = None,
                                hist_success = None,
                                hist_error_message = None,
                                hist_created_at = now3,
                                hist_created_by = Some (user_ident user)\<rparr>
                         in (Inr (''Alert resolved successfully'', to_dict alert' now4),
                             db\<lparr>alert_rows :=
                                  update_first
                                    (\<lambda>a. ident a = alert_id \<and>
                                         organization_id a = org_ident org)
                                    alert' (alert_rows db),
                                history_rows := history_rows db @ [history]\<rparr>))))))"

section \<open>The specification's reading of the condition checks\<close>


text \<open>
  The three supported operators of the specification, and the comparison each one
  stands for.
\<close>

datatype comparison = Greater | Less | Equal

definition supported_operator :: "pyval \<Rightarrow> comparison option" where
  "supported_operator v =
     (if v = PStr ''>'' then Some Greater
      else if v = PStr ''<'' then Some Less
      else if v = PStr ''=='' then Some Equal
      else None)"









section \<open>Deserialisation of the flat representation\<close>

text \<open>
  Modelled from the spec: the inverse of \<open>.value\<close> for severities. The repository
  serialises only; the specification asks for explicit string-tag deserialisation that
  rejects an unknown tag.
\<close>

definition severity_of_value :: "string \<Rightarrow> AlertSeverity option" where
  "severity_of_value s =
     (if s = ''info'' then Some INFO
      else if s = ''warning'' then Some WARNING
      else if s = ''critical'' then Some CRITICAL
      else if s = ''emergency'' then Some EMERGENCY
      else None)"

text \<open>Modelled from the spec: the inverse of \<open>.value\<close> for statuses, absent from the repository.\<close>

definition status_of_value :: "string \<Rightarrow> AlertStatus option" where
  "status_of_value s =
     (if s = ''active'' then Some ACTIVE
      else if s = ''acknowledged'' then Some ACKNOWLEDGED
      else if s = ''resolved'' then Some RESOLVED
      else if s = ''suppressed'' then Some SUPPRESSED
      else None)"

text \<open>
  Modelled from the spec: readers of one key of the flat representation, absent from the
  repository; each fails on a missing key or a value of another shape.
\<close>

definition read_int :: "(string \<rightharpoonup> 'c dict_value) \<Rightarrow> string \<Rightarrow> int option" where
  "read_int d k = (case d k of Some (Val (PInt i)) \<Rightarrow> Some i | _ \<Rightarrow> None)"

definition read_opt_int :: "(string \<rightharpoonup> 'c dict_value) \<Rightarrow> string \<Rightarrow> int option option" where
  "read_opt_int d k =
     (case d k of Some (Val (PInt i)) \<Rightarrow> Some (Some i) | Some (Val PNone) \<Rightarrow> Some None
      | _ \<Rightarrow> None)"

definition read_str :: "(string \<rightharpoonup> 'c dict_value) \<Rightarrow> string \<Rightarrow> string option" where
  "read_str d k = (case d k of Some (Val (PStr s)) \<Rightarrow> Some s | _ \<Rightarrow> None)"

definition read_opt_str ::
  "(string \<rightharpoonup> 'c dict_value) \<Rightarrow> string \<Rightarrow> string option option" where
  "read_opt_str d k =
     (case d k of Some (Val (PStr s)) \<Rightarrow> Some (Some s) | Some (Val PNone) \<Rightarrow> Some None
      | _ \<Rightarrow> None)"

definition read_iso :: "(string \<rightharpoonup> 'c dict_value) \<Rightarrow> string \<Rightarrow> datetime option" where
  "read_iso d k = (case d k of Some (Iso t) \<Rightarrow> Some t | _ \<Rightarrow> None)"

definition read_opt_iso ::
  "(string \<rightharpoonup> 'c dict_value) \<Rightarrow> string \<Rightarrow> datetime option option" where
  "read_opt_iso d k =
     (case d k of Some (Iso t) \<Rightarrow> Some (Some t) | Some (Val PNone) \<Rightarrow> Some None
      | _ \<Rightarrow> None)"

definition read_data :: "(string \<rightharpoonup> 'c dict_value) \<Rightarrow> string \<Rightarrow> 'c option" where
  "read_data d k = (case d k of Some (Data c) \<Rightarrow> Some c | _ \<Rightarrow> None)"

text \<open>
  Modelled from the spec: the deserialisation of an \<open>Alert\<close> from its flat
  representation, absent from the repository. It reads the stored fields and ignores
  the derived keys \<open>is_active\<close>, \<open>is_acknowledged\<close>, \<open>is_resolved\<close> and
  \<open>duration_minutes\<close>.
\<close>

definition from_dict :: "(string \<rightharpoonup> 'c dict_value) \<Rightarrow> 'c Alert option" where
  "from_dict d = do {
     v_id \<leftarrow> read_int d ''id'';
     v_rule \<leftarrow> read_int d ''alert_rule_id'';
     v_title \<leftarrow> read_str d ''title'';
     v_message \<leftarrow> read_str d ''message'';
     v_severity \<leftarrow> Option.bind (read_str d ''severity'') severity_of_value;
     v_status \<leftarrow> Option.bind (read_str d ''status'') status_of_value;
     v_context \<leftarrow> read_data d ''context_data'';
     v_source_type \<leftarrow> read_opt_str d ''source_type'';
     v_source_id \<leftarrow> read_opt_int d ''source_id'';
     v_created_at \<leftarrow> read_iso d ''created_at'';
     v_updated_at \<leftarrow> read_iso d ''updated_at'';
     v_acknowledged_at \<leftarrow> read_opt_iso d ''acknowledged_at'';
     v_resolved_at \<leftarrow> read_opt_iso d ''resolved_at'';
     v_acknowledged_by \<leftarrow> read_opt_int d ''acknowledged_by'';
     v_resolved_by \<leftarrow> read_opt_int d ''resolved_by'';
     v_organization \<leftarrow> read_int d ''organization_id'';
     v_created_by \<leftarrow> read_int d ''created_by'';
     v_pipeline \<leftarrow> read_opt_int d ''pipeline_id'';
     Some \<lparr>ident = v_id, alert_rule_id = v_rule, title = v_title, message = v_message,
           severity = v_severity, status = v_status, context_data = v_context,
           source_type = v_source_type, source_id = v_source_id,
           created_at = v_created_at, updated_at = v_updated_at,
           acknowledged_at = v_acknowledged_at, resolved_at = v_resolved_at,
           acknowledged_by = v_acknowledged_by, resolved_by = v_resolved_by,
           organization_id = v_organization, created_by = v_created_by,
           pipeline_id = v_pipeline\<rparr>
   }"

section \<open>Concrete rules, alerts and sessions\<close>

text \<open>An alert of organisation 3, created at time 0 and still active.\<close>

definition example_alert :: "unit Alert" where
  "example_alert =
     \<lparr>ident = 1, alert_rule_id = 5, title = ''Pipeline failed'',
      message = ''nightly load failed'', severity = CRITICAL, status = ACTIVE,
      context_data = (), source_type = Some ''pipeline'', source_id = Some 9,
      created_at = 0, updated_at = 0, acknowledged_at = None, resolved_at = None,
      acknowledged_by = None, resolved_by = None, organization_id = 3, created_by = 7,
      pipeline_id = Some 9\<rparr>"

text \<open>A later alert of the same rule, created 1000 microseconds after the first.\<close>

definition later_alert :: "unit Alert" where
  "later_alert = example_alert\<lparr>ident := 2, created_at := 1000, updated_at := 1000\<rparr>"

text \<open>
  The later alert, resolved 10 minutes after its creation (scenario 4 of the
  specification).
\<close>

definition resolved_example :: "unit Alert" where
  "resolved_example =
     later_alert\<lparr>status := RESOLVED, resolved_at := Some 600001000, resolved_by := Some 7,
                 updated_at := 600001000\<rparr>"

text \<open>A session with one user of organisation 3 and the active alert.\<close>

definition example_db :: "unit Database" where
  "example_db =
     \<lparr>users = [\<lparr>user_ident = 7, username = ''alice'',
                 organization = Some \<lparr>org_ident = 3\<rparr>\<rparr>],
      alert_rows = [example_alert],
      history_rows = []\<rparr>"

text \<open>A custom rule with a cooldown of 60 minutes that has fired twice.\<close>

definition cooldown_rule :: "unit AlertRule" where
  "cooldown_rule =
     \<lparr>rule_type = ''custom'', conditions = Map.empty, cooldown_minutes = Some 60,
      rule_is_active = Some True, alerts = [example_alert, later_alert]\<rparr>"



text \<open>The same threshold with the operator \<open>>=\<close>, which the chain of the source does not list.\<close>

definition unsupported_operator_rule :: "unit AlertRule" where
  "unsupported_operator_rule =
     \<lparr>rule_type = ''health_check'',
      conditions = [''metric_threshold'' \<mapsto> PInt 90, ''operator'' \<mapsto> PStr ''>=''],
      cooldown_minutes = None, rule_is_active = Some True, alerts = []\<rparr>"

text \<open>A rule that is switched off.\<close>

definition inactive_rule :: "unit AlertRule" where
  "inactive_rule = cooldown_rule\<lparr>rule_is_active := Some False, cooldown_minutes := None\<rparr>"

section \<open>Lemmas on the Python comparisons\<close>








lemma py_lt_numeric:
  "num_of a = Some x \<Longrightarrow> num_of b = Some y \<Longrightarrow> py_lt a b = Inr (float_lt x y)"
  by (simp add: py_lt_def)






lemma py_eq_PStr: "py_eq v (PStr s) \<longleftrightarrow> v = PStr s"
  by (cases v) (auto simp: py_eq_def)




section \<open>Lemmas on the most recent alert\<close>

lemma created_at_max_created_at:
  "created_at (max_created_at best xs) = Max (created_at ` set (best # xs))"
proof (induction xs arbitrary: best)
  case Nil
  show ?case by simp
next
  case (Cons x xs)
  show ?case
  proof (cases "created_at x > created_at best")
    case True
    then have "Max (insert (created_at x) (insert (created_at best) (created_at ` set xs)))
             = Max (insert (created_at x) (created_at ` set xs))"
      by (cases "set xs = {}") (auto simp: max_def)
    with True Cons.IH [of x] show ?thesis by (simp add: insert_commute)
  next
    case False
    then have "Max (insert (created_at best) (insert (created_at x) (created_at ` set xs)))
             = Max (insert (created_at best) (created_at ` set xs))"
      by (cases "set xs = {}") (auto simp: max_def)
    with False Cons.IH [of best] show ?thesis by simp
  qed
qed

lemma max_created_at_mem: "max_created_at best xs \<in> set (best # xs)"
  by (induction xs arbitrary: best) auto

lemma get_last_alert_latest:
  assumes "alerts self \<noteq> []"
  shows "\<exists>a. get_last_alert self = Some a \<and> a \<in> set (alerts self) \<and>
             created_at a = Max (created_at ` set (alerts self))"
proof (cases "alerts self")
  case Nil
  with assms show ?thesis by simp
next
  case (Cons x xs)
  then show ?thesis
    using created_at_max_created_at [of x xs] max_created_at_mem [of x xs]
    by (simp add: get_last_alert_def)
qed

lemma should_trigger_no_cooldown:
  "should_trigger (self\<lparr>cooldown_minutes := None\<rparr>) context now =
     (if rule_is_active self \<noteq> Some True then Inr False
      else if rule_type self = ''pipeline_failure''
        then evaluate_pipeline_conditions self context
      else if rule_type self = ''health_check''
        then evaluate_health_check_conditions self context
      else if rule_type self = ''custom''
        then evaluate_custom_conditions self context
      else Inr False)"
  by (simp add: should_trigger_def evaluate_pipeline_conditions_def
      evaluate_health_check_conditions_def evaluate_custom_conditions_def)

section \<open>Lemmas on the session and on serialisation\<close>

lemma find_update_first:
  "find P xs = Some x \<Longrightarrow> P y \<Longrightarrow> find P (update_first P y xs) = Some y"
  by (induction xs) (auto split: if_splits)

lemma length_update_first: "length (update_first P y xs) = length xs"
  by (induction xs) auto

lemma find_Some_holds: "find P xs = Some x \<Longrightarrow> P x"
  by (induction xs) (auto split: if_splits)

lemma example_user:
  "get_current_user_org example_db 7 =
     (Some \<lparr>user_ident = 7, username = ''alice'', organization = Some \<lparr>org_ident = 3\<rparr>\<rparr>,
      Some \<lparr>org_ident = 3\<rparr>)"
  by (simp add: get_current_user_org_def example_db_def)

lemma example_row:
  "find (\<lambda>a. ident a = 1 \<and> organization_id a = org_ident \<lparr>org_ident = 3\<rparr>)
     (alert_rows example_db) = Some example_alert"
  by (simp add: example_db_def example_alert_def)

lemma to_dict_keys:
  "to_dict self now ''id'' = Some (Val (PInt (ident self)))"
  "to_dict self now ''alert_rule_id'' = Some (Val (PInt (alert_rule_id self)))"
  "to_dict self now ''title'' = Some (Val (PStr (title self)))"
  "to_dict self now ''message'' = Some (Val (PStr (message self)))"
  "to_dict self now ''severity'' = Some (Val (PStr (severity_value (severity self))))"
  "to_dict self now ''status'' = Some (Val (PStr (status_value (status self))))"
  "to_dict self now ''context_data'' = Some (Data (context_data self))"
  "to_dict self now ''source_type'' = Some (opt_str (source_type self))"
  "to_dict self now ''source_id'' = Some (opt_int (source_id self))"
  "to_dict self now ''organization_id'' = Some (Val (PInt (organization_id self)))"
  "to_dict self now ''created_by'' = Some (Val (PInt (created_by self)))"
  "to_dict self now ''pipeline_id'' = Some (opt_int (pipeline_id self))"
  "to_dict self now ''is_active'' = Some (Val (PBool (is_active self)))"
  "to_dict self now ''is_acknowledged'' = Some (Val (PBool (is_acknowledged self)))"
  "to_dict self now ''is_resolved'' = Some (Val (PBool (is_resolved self)))"
  "to_dict self now ''duration_minutes'' =
     Some (Val (PFloat (Finite (get_duration_minutes self now))))"
  "to_dict self now ''created_at'' = Some (Iso (created_at self))"
  "to_dict self now ''updated_at'' = Some (Iso (updated_at self))"
  "to_dict self now ''acknowledged_at'' = Some (opt_iso (acknowledged_at self))"
  "to_dict self now ''resolved_at'' = Some (opt_iso (resolved_at self))"
  "to_dict self now ''acknowledged_by'' = Some (opt_int (acknowledged_by self))"
  "to_dict self now ''resolved_by'' = Some (opt_int (resolved_by self))"
  by (simp_all add: to_dict_def)

lemma severity_of_value_inverse: "severity_of_value (severity_value s) = Some s"
  by (cases s) (simp_all add: severity_of_value_def)

lemma status_of_value_inverse: "status_of_value (status_value s) = Some s"
  by (cases s) (simp_all add: status_of_value_def)

lemma read_opt_int_to_dict:
  "d k = Some (opt_int v) \<Longrightarrow> read_opt_int d k = Some v"
  by (cases v) (simp_all add: read_opt_int_def)

lemma read_opt_str_to_dict:
  "d k = Some (opt_str v) \<Longrightarrow> read_opt_str d k = Some v"
  by (cases v) (simp_all add: read_opt_str_def)

lemma read_opt_iso_to_dict:
  "d k = Some (opt_iso v) \<Longrightarrow> read_opt_iso d k = Some v"
  by (cases v) (simp_all add: read_opt_iso_def)

section \<open>The acknowledge transition\<close>

text \<open>
  Claim C1, as amended. For an alert that the handler finds in the caller's organisation,
  \<open>acknowledge_alert\<close> fails with the 400 "Alert is already acknowledged" exactly when
  the status is already \<open>ACKNOWLEDGED\<close>, and then changes nothing. From every other
  status (\<open>ACTIVE\<close>, and also \<open>RESOLVED\<close> and \<open>SUPPRESSED\<close>) it succeeds: the stored
  alert gets status \<open>ACKNOWLEDGED\<close>, \<open>acknowledged_at\<close> the clock reading,
  \<open>acknowledged_by\<close> the actor, and exactly one history row with action
  \<open>acknowledged\<close> is appended.
\<close>

theorem acknowledge_alert_transition:
  assumes user: "get_current_user_org db current_user_id = (Some user, Some org)"
      and row: "find (\<lambda>a. ident a = alert_id \<and> organization_id a = org_ident org)
                  (alert_rows db) = Some alert"
  shows "let result = acknowledge_alert db current_user_id alert_id now1 now2 now3 now4;
             alert' = alert\<lparr>status := ACKNOWLEDGED, acknowledged_at := Some now1,
                             acknowledged_by := Some (user_ident user), updated_at := now2\<rparr>
         in (fst result = Inl (HTTPError 400 ''Alert is already acknowledged'') \<longleftrightarrow> status alert = ACKNOWLEDGED) \<and>
            (isl (fst result) \<longleftrightarrow> status alert = ACKNOWLEDGED) \<and>
            (status alert = ACKNOWLEDGED \<longrightarrow> snd result = db) \<and>
            (status alert \<noteq> ACKNOWLEDGED \<longrightarrow>
               fst result = Inr (''Alert acknowledged successfully'', to_dict alert' now4) \<and>
               find (\<lambda>a. ident a = alert_id \<and> organization_id a = org_ident org)
                 (alert_rows (snd result)) = Some alert' \<and>
               length (alert_rows (snd result)) = length (alert_rows db) \<and>
               (\<exists>h. history_rows (snd result) = history_rows db @ [h] \<and>
                    hist_action h = ''acknowledged'' \<and>
                    hist_alert_id h = alert_id \<and>
                    hist_created_by h = Some (user_ident user)))"
proof -
  let ?P = "\<lambda>a. ident a = alert_id \<and> organization_id a = org_ident org"
  let ?a = "alert\<lparr>status := ACKNOWLEDGED, acknowledged_at := Some now1,
                   acknowledged_by := Some (user_ident user), updated_at := now2\<rparr>"
  have "?P alert"
    using find_Some_holds [OF row] .
  then have "?P ?a"
    by simp
  then have found: "find ?P (update_first ?P ?a (alert_rows db)) = Some ?a"
    using find_update_first [OF row, of ?a] by simp
  show ?thesis
  proof (cases "status alert = ACKNOWLEDGED")
    case True
    with user row show ?thesis
      by (simp add: acknowledge_alert_def is_acknowledged_def)
  next
    case False
    with user row found show ?thesis
      by (simp add: acknowledge_alert_def is_acknowledged_def acknowledge_def Let_def
          length_update_first)
  qed
qed

text \<open>
  The transition of C1 on the active alert of the example session, and its refusal on
  the session that results.
\<close>

theorem acknowledge_alert_transition_witness:
  "status example_alert \<noteq> ACKNOWLEDGED \<and>
   fst (acknowledge_alert example_db 7 1 100 101 102 103) =
     Inr (''Alert acknowledged successfully'',
          to_dict (example_alert\<lparr>status := ACKNOWLEDGED, acknowledged_at := Some 100,
                                 acknowledged_by := Some 7, updated_at := 101\<rparr>) 103) \<and>
   find (\<lambda>a. ident a = 1 \<and> organization_id a = 3)
     (alert_rows (snd (acknowledge_alert example_db 7 1 100 101 102 103))) =
     Some (example_alert\<lparr>status := ACKNOWLEDGED, acknowledged_at := Some 100,
                          acknowledged_by := Some 7, updated_at := 101\<rparr>) \<and>
   (\<exists>h. history_rows (snd (acknowledge_alert example_db 7 1 100 101 102 103)) = [h] \<and>
        hist_action h = ''acknowledged'')"
proof -
  have active: "status example_alert \<noteq> ACKNOWLEDGED"
    and empty: "history_rows example_db = []"
    by (simp_all add: example_alert_def example_db_def)
  from acknowledge_alert_transition [OF example_user example_row, of 100 101 102 103] active empty
  show ?thesis
    by (auto simp: Let_def)
qed

text \<open>
  Claim C1 as stated fails: on the example session, \<open>resolve\<close> succeeds on the active
  alert, and the \<open>acknowledge\<close> that follows succeeds too and sets the resolved alert
  back to \<open>ACKNOWLEDGED\<close>.
\<close>

theorem acknowledge_after_resolve_succeeds:
  "status example_alert = ACTIVE \<and>
   \<not> isl (fst (resolve_alert example_db 7 1 100 101 102 103)) \<and>
   map status (alert_rows (snd (resolve_alert example_db 7 1 100 101 102 103))) = [RESOLVED] \<and>
   \<not> isl (fst (acknowledge_alert (snd (resolve_alert example_db 7 1 100 101 102 103))
                 7 1 200 201 202 203)) \<and>
   map status (alert_rows (snd (acknowledge_alert
       (snd (resolve_alert example_db 7 1 100 101 102 103)) 7 1 200 201 202 203))) = [ACKNOWLEDGED]"
  by (simp add: resolve_alert_def acknowledge_alert_def get_current_user_org_def example_db_def
      example_alert_def is_resolved_def is_acknowledged_def resolve_def acknowledge_def Let_def)

section \<open>The cooldown gate\<close>

text \<open>
  Claim C2. For an active rule: a cooldown that is NULL or zero, or an empty list of prior
  alerts, leaves \<open>should_trigger\<close> at what it returns without any cooldown. Otherwise,
  with \<open>M = cooldown_minutes > 0\<close> and \<open>t\<close> the greatest \<open>created_at\<close> among the rule's
  alerts, fewer than \<open>M\<close> minutes between \<open>t\<close> and \<open>now\<close> give \<open>False\<close>, and \<open>M\<close>
  minutes or more (the boundary included) again give the result without cooldown.
\<close>

theorem cooldown_gate:
  assumes "rule_is_active self = Some True"
  shows "(cooldown_minutes self = None \<or> cooldown_minutes self = Some 0 \<or> alerts self = [] \<longrightarrow>
            should_trigger self context now =
            should_trigger (self\<lparr>cooldown_minutes := None\<rparr>) context now) \<and>
         (\<forall>M. cooldown_minutes self = Some M \<and> 0 < M \<and> alerts self \<noteq> [] \<longrightarrow>
            (minutes_between now (Max (created_at ` set (alerts self))) < of_int M \<longrightarrow>
               should_trigger self context now = Inr False) \<and>
            (of_int M \<le> minutes_between now (Max (created_at ` set (alerts self))) \<longrightarrow>
               should_trigger self context now =
               should_trigger (self\<lparr>cooldown_minutes := None\<rparr>) context now))"
proof (intro conjI impI allI)
  assume "cooldown_minutes self = None \<or> cooldown_minutes self = Some 0 \<or> alerts self = []"
  then show "should_trigger self context now =
            should_trigger (self\<lparr>cooldown_minutes := None\<rparr>) context now"
    unfolding should_trigger_no_cooldown
    by (auto simp: should_trigger_def get_last_alert_def split: option.splits)
next
  fix M
  assume M: "cooldown_minutes self = Some M \<and> 0 < M \<and> alerts self \<noteq> []"
  then obtain a where a: "get_last_alert self = Some a"
    "created_at a = Max (created_at ` set (alerts self))"
    using get_last_alert_latest [of self] by blast
  {
    assume "minutes_between now (Max (created_at ` set (alerts self))) < of_int M"
    with M a assms show "should_trigger self context now = Inr False"
      by (simp add: should_trigger_def)
  }
  {
    assume "of_int M \<le> minutes_between now (Max (created_at ` set (alerts self)))"
    with M a assms show "should_trigger self context now =
               should_trigger (self\<lparr>cooldown_minutes := None\<rparr>) context now"
      unfolding should_trigger_no_cooldown
      by (simp add: should_trigger_def not_less)
  }
qed

text \<open>
  The gate of C2 on a custom rule with a 60 minute cooldown whose latest alert is from time
  1000: suppressed one microsecond before the hour is over, firing at exactly 60 minutes,
  and never suppressed with cooldown 0 or without prior alerts.
\<close>

theorem cooldown_gate_witness:
  "rule_is_active cooldown_rule = Some True \<and>
   cooldown_minutes cooldown_rule = Some 60 \<and>
   Max (created_at ` set (alerts cooldown_rule)) = 1000 \<and>
   minutes_between 3600001000 1000 = 60 \<and>
   should_trigger cooldown_rule Map.empty 3600000999 = Inr False \<and>
   should_trigger cooldown_rule Map.empty 3600001000 = Inr True \<and>
   should_trigger (cooldown_rule\<lparr>cooldown_minutes := Some 0\<rparr>) Map.empty 1000 = Inr True \<and>
   should_trigger (cooldown_rule\<lparr>alerts := []\<rparr>) Map.empty 1000 = Inr True"
proof -
  have act: "rule_is_active cooldown_rule = Some True"
    and cd: "cooldown_minutes cooldown_rule = Some 60"
    and ne: "alerts cooldown_rule \<noteq> []"
    and mx: "Max (created_at ` set (alerts cooldown_rule)) = 1000"
    by (simp_all add: cooldown_rule_def example_alert_def later_alert_def)
  have exact: "minutes_between 3600001000 1000 = 60"
    and before: "minutes_between 3600000999 1000 < 60"
    by (simp_all add: minutes_between_def)
  have free: "should_trigger (r\<lparr>cooldown_minutes := None\<rparr>) Map.empty t = Inr True"
    if "rule_is_active r = Some True" "rule_type r = ''custom''" for r :: "unit AlertRule" and t
    using that by (simp add: should_trigger_no_cooldown evaluate_custom_conditions_def)
  have custom: "rule_type cooldown_rule = ''custom''"
    by (simp add: cooldown_rule_def)
  have "should_trigger cooldown_rule Map.empty 3600000999 = Inr False"
    using cooldown_gate [OF act, of Map.empty 3600000999] cd ne mx before by simp
  moreover have "should_trigger cooldown_rule Map.empty 3600001000 = Inr True"
    using cooldown_gate [OF act, of Map.empty 3600001000] cd ne mx exact
      free [OF act custom] by simp
  moreover have
    "should_trigger (cooldown_rule\<lparr>cooldown_minutes := Some 0\<rparr>) Map.empty 1000 = Inr True"
    using cooldown_gate [of "cooldown_rule\<lparr>cooldown_minutes := Some 0\<rparr>" Map.empty 1000]
      act free [OF act custom] by simp
  moreover have "should_trigger (cooldown_rule\<lparr>alerts := []\<rparr>) Map.empty 1000 = Inr True"
    using cooldown_gate [of "cooldown_rule\<lparr>alerts := []\<rparr>" Map.empty 1000]
      act custom free [of "cooldown_rule\<lparr>alerts := []\<rparr>"] by simp
  ultimately show ?thesis using act cd mx exact by simp
qed

section \<open>Health checks with an operator outside the supported set\<close>

lemma unsupported_operator_ignores_metric:
  assumes "conditions self ''operator'' = Some op" and "supported_operator op = None"
      and "conditions self ''metric_threshold'' = Some th"
      and "conditions self ''status'' = None"
  shows "evaluate_health_check_conditions self context = Inr True"
proof -
  from assms(2) have "\<not> py_eq op (PStr ''>'')" "\<not> py_eq op (PStr ''<'')"
    "\<not> py_eq op (PStr ''=='')"
    by (auto simp: py_eq_PStr supported_operator_def split: if_splits)
  with assms(1,3,4) show ?thesis
    by (simp add: evaluate_health_check_conditions_def dict_get_def)
qed

text \<open>
  Claim C3 does not hold of the code. With threshold 90 and the operator \<open>>=\<close>, which
  is none of the three supported ones, the metric value 5 is not \<open>>= 90\<close>, and the
  evaluation nevertheless returns \<open>True\<close>: no branch of the chain applies and the
  function falls through to its final \<open>return True\<close>.
\<close>

theorem unsupported_operator_passes:
  "supported_operator (PStr ''>='') = None \<and>
   py_ge (PInt 5) (PInt 90) = Inr False \<and>
   evaluate_health_check_conditions unsupported_operator_rule [''metric_value'' \<mapsto> PInt 5]
     = Inr True"
  by (simp add: evaluate_health_check_conditions_def unsupported_operator_rule_def
      supported_operator_def dict_get_def py_eq_def py_ge_def float_le_def float_eq_def)

section \<open>Pipeline conditions\<close>




section \<open>Health-check conditions with a supported operator\<close>




section \<open>The resolve transition\<close>

text \<open>
  Claim C6. For an alert that the handler finds in the caller's organisation,
  \<open>resolve_alert\<close> fails, with the 400 "Alert is already resolved", exactly when the
  status is already \<open>RESOLVED\<close>, and then changes nothing. Otherwise (from \<open>ACTIVE\<close>
  or \<open>ACKNOWLEDGED\<close>) it succeeds: the stored alert gets status \<open>RESOLVED\<close>,
  \<open>resolved_at\<close> the clock reading, \<open>resolved_by\<close> the actor, and exactly one history
  row with action \<open>resolved\<close> is appended.
\<close>

theorem resolve_alert_transition:
  assumes user: "get_current_user_org db current_user_id = (Some user, Some org)"
      and row: "find (\<lambda>a. ident a = alert_id \<and> organization_id a = org_ident org)
                  (alert_rows db) = Some alert"
  shows "let result = resolve_alert db current_user_id alert_id now1 now2 now3 now4;
             alert' = alert\<lparr>status := RESOLVED, resolved_at := Some now1,
                             resolved_by := Some (user_ident user), updated_at := now2\<rparr>
         in (fst result = Inl (HTTPError 400 ''Alert is already resolved'') \<longleftrightarrow> status alert = RESOLVED) \<and>
            (isl (fst result) \<longleftrightarrow> status alert = RESOLVED) \<and>
            (status alert = RESOLVED \<longrightarrow> snd result = db) \<and>
            (status alert \<noteq> RESOLVED \<longrightarrow>
               fst result = Inr (''Alert resolved successfully'', to_dict alert' now4) \<and>
               find (\<lambda>a. ident a = alert_id \<and> organization_id a = org_ident org)
                 (alert_rows (snd result)) = Some alert' \<and>
               length (alert_rows (snd result)) = length (alert_rows db) \<and>
               (\<exists>h. history_rows (snd result) = history_rows db @ [h] \<and>
                    hist_action h = ''resolved'' \<and>
                    hist_alert_id h = alert_id \<and>
                    hist_created_by h = Some (user_ident user)))"
proof -
  let ?P = "\<lambda>a. ident a = alert_id \<and> organization_id a = org_ident org"
  let ?a = "alert\<lparr>status := RESOLVED, resolved_at := Some now1,
                   resolved_by := Some (user_ident user), updated_at := now2\<rparr>"
  have "?P alert"
    using find_Some_holds [OF row] .
  then have "?P ?a"
    by simp
  then have found: "find ?P (update_first ?P ?a (alert_rows db)) = Some ?a"
    using find_update_first [OF row, of ?a] by simp
  show ?thesis
  proof (cases "status alert = RESOLVED")
    case True
    with user row show ?thesis
      by (simp add: resolve_alert_def is_resolved_def)
  next
    case False
    with user row found show ?thesis
      by (simp add: resolve_alert_def is_resolved_def resolve_def Let_def
          length_update_first)
  qed
qed

text \<open>The transition of C6 on the active alert of the example session.\<close>

theorem resolve_alert_transition_witness:
  "status example_alert \<noteq> RESOLVED \<and>
   fst (resolve_alert example_db 7 1 100 101 102 103) =
     Inr (''Alert resolved successfully'',
          to_dict (example_alert\<lparr>status := RESOLVED, resolved_at := Some 100,
                                 resolved_by := Some 7, updated_at := 101\<rparr>) 103) \<and>
   find (\<lambda>a. ident a = 1 \<and> organization_id a = 3)
     (alert_rows (snd (resolve_alert example_db 7 1 100 101 102 103))) =
     Some (example_alert\<lparr>status := RESOLVED, resolved_at := Some 100,
                          resolved_by := Some 7, updated_at := 101\<rparr>) \<and>
   (\<exists>h. history_rows (snd (resolve_alert example_db 7 1 100 101 102 103)) = [h] \<and>
        hist_action h = ''resolved'')"
proof -
  have active: "status example_alert \<noteq> RESOLVED"
    and empty: "history_rows example_db = []"
    by (simp_all add: example_alert_def example_db_def)
  from resolve_alert_transition [OF example_user example_row, of 100 101 102 103] active empty
  show ?thesis
    by (auto simp: Let_def)
qed

section \<open>Duration of an active alert\<close>

text \<open>
  Claim C7. While the status is \<open>ACTIVE\<close>, \<open>get_duration_minutes\<close> is the time from
  \<open>created_at\<close> to the clock reading, in minutes (the difference in microseconds divided
  by 60000000), and it does not decrease when the clock advances.
\<close>

theorem duration_monotone_while_active:
  assumes "status self = ACTIVE" and "now1 \<le> now2"
  shows "get_duration_minutes self now1 \<le> get_duration_minutes self now2 \<and>
         get_duration_minutes self now1 = of_int (now1 - created_at self) / 60000000 \<and>
         get_duration_minutes self now2 = of_int (now2 - created_at self) / 60000000"
  using assms
  by (simp add: get_duration_minutes_def is_resolved_def is_acknowledged_def
      minutes_between_def divide_right_mono)

text \<open>
  C7 on the active alert created at time 1000, read 10 and 20 minutes after its creation.
\<close>

theorem duration_monotone_while_active_witness:
  "status later_alert = ACTIVE \<and> created_at later_alert = 1000 \<and>
   (600001000 :: int) \<le> 1200001000 \<and>
   get_duration_minutes later_alert 600001000 \<le> get_duration_minutes later_alert 1200001000 \<and>
   get_duration_minutes later_alert 600001000 = 10 \<and>
   get_duration_minutes later_alert 1200001000 = 20"
proof -
  have active: "status later_alert = ACTIVE" and made: "created_at later_alert = 1000"
    by (simp_all add: later_alert_def example_alert_def)
  from duration_monotone_while_active [OF active, of 600001000 1200001000] active made
  show ?thesis
    by simp
qed

section \<open>Round trip through the flat representation\<close>

text \<open>
  Claim C8. Reading the dictionary of \<open>to_dict\<close> back gives the alert with all its
  stored fields. Severity and status appear there as their lowercase tags. The keys
  \<open>is_active\<close> and \<open>duration_minutes\<close> are not read back, so replacing them in the
  dictionary does not change the alert that is read; they are computed from the stored
  fields: \<open>is_active\<close> is true exactly for the status \<open>ACTIVE\<close>, and
  \<open>duration_minutes\<close> is the time in minutes from \<open>created_at\<close> to \<open>resolved_at\<close> for
  a resolved alert with that timestamp, else to \<open>acknowledged_at\<close> for an acknowledged
  alert with that timestamp, else to the clock reading.
\<close>

theorem to_dict_round_trip:
  "from_dict (to_dict self now) = Some self \<and>
   from_dict ((to_dict self now)(''is_active'' := x, ''duration_minutes'' := y)) = Some self \<and>
   to_dict self now ''severity'' = Some (Val (PStr (severity_value (severity self)))) \<and>
   severity_value (severity self) \<in> {''info'', ''warning'', ''critical'', ''emergency''} \<and>
   to_dict self now ''status'' = Some (Val (PStr (status_value (status self)))) \<and>
   status_value (status self) \<in> {''active'', ''acknowledged'', ''resolved'', ''suppressed''} \<and>
   to_dict self now ''is_active'' = Some (Val (PBool (status self = ACTIVE))) \<and>
   (status self = RESOLVED \<and> resolved_at self = Some r \<longrightarrow>
      to_dict self now ''duration_minutes'' =
        Some (Val (PFloat (Finite (of_int (r - created_at self) / 60000000))))) \<and>
   (status self = ACKNOWLEDGED \<and> acknowledged_at self = Some a \<longrightarrow>
      to_dict self now ''duration_minutes'' =
        Some (Val (PFloat (Finite (of_int (a - created_at self) / 60000000))))) \<and>
   (\<not> (status self = RESOLVED \<and> resolved_at self \<noteq> None) \<and>
    \<not> (status self = ACKNOWLEDGED \<and> acknowledged_at self \<noteq> None) \<longrightarrow>
      to_dict self now ''duration_minutes'' =
        Some (Val (PFloat (Finite (of_int (now - created_at self) / 60000000)))))"
proof -
  have read_back: "from_dict (to_dict self now) = Some self"
    by (simp add: from_dict_def read_int_def read_str_def read_iso_def read_data_def
      to_dict_keys read_opt_int_to_dict read_opt_str_to_dict read_opt_iso_to_dict
      severity_of_value_inverse status_of_value_inverse)
  have "from_dict ((to_dict self now)(''is_active'' := x, ''duration_minutes'' := y))
      = Some self"
    by (simp add: from_dict_def read_int_def read_str_def read_iso_def read_data_def
      to_dict_keys read_opt_int_to_dict read_opt_str_to_dict read_opt_iso_to_dict
      severity_of_value_inverse status_of_value_inverse)
  moreover have "severity_value (severity self) \<in> {''info'', ''warning'', ''critical'', ''emergency''}"
    by (cases "severity self") simp_all
  moreover have
    "status_value (status self) \<in> {''active'', ''acknowledged'', ''resolved'', ''suppressed''}"
    by (cases "status self") simp_all
  moreover have "get_duration_minutes self now = of_int (r - created_at self) / 60000000"
    if "status self = RESOLVED" "resolved_at self = Some r"
    using that by (simp add: get_duration_minutes_def is_resolved_def minutes_between_def)
  moreover have "get_duration_minutes self now = of_int (a - created_at self) / 60000000"
    if "status self = ACKNOWLEDGED" "acknowledged_at self = Some a"
    using that
    by (simp add: get_duration_minutes_def is_resolved_def is_acknowledged_def
        minutes_between_def)
  moreover have "get_duration_minutes self now = of_int (now - created_at self) / 60000000"
    if "\<not> (status self = RESOLVED \<and> resolved_at self \<noteq> None)"
      "\<not> (status self = ACKNOWLEDGED \<and> acknowledged_at self \<noteq> None)"
    using that
    by (auto simp: get_duration_minutes_def is_resolved_def is_acknowledged_def
        minutes_between_def split: option.splits)
  ultimately show ?thesis
    using read_back by (simp add: to_dict_keys is_active_def)
qed

text \<open>
  C8 on three alerts created at time 1000: resolved after 10 minutes (scenario 4 of the
  specification), acknowledged after 5 minutes, and still active 20 minutes on.
\<close>

theorem to_dict_round_trip_witness:
  "status resolved_example = RESOLVED \<and> resolved_at resolved_example = Some 600001000 \<and>
   created_at resolved_example = 1000 \<and>
   from_dict (to_dict resolved_example 900000000) = Some resolved_example \<and>
   to_dict resolved_example 900000000 ''is_active'' = Some (Val (PBool False)) \<and>
   to_dict resolved_example 900000000 ''duration_minutes'' = Some (Val (PFloat (Finite 10))) \<and>
   to_dict (later_alert\<lparr>status := ACKNOWLEDGED, acknowledged_at := Some 300001000\<rparr>) 900000000
     ''duration_minutes'' = Some (Val (PFloat (Finite 5))) \<and>
   to_dict later_alert 1200001000 ''is_active'' = Some (Val (PBool True)) \<and>
   to_dict later_alert 1200001000 ''duration_minutes'' = Some (Val (PFloat (Finite 20)))"
proof -
  have res: "status resolved_example = RESOLVED" "resolved_at resolved_example = Some 600001000"
    "created_at resolved_example = 1000"
    by (simp_all add: resolved_example_def later_alert_def example_alert_def)
  have act: "status later_alert = ACTIVE" "created_at later_alert = 1000"
    "resolved_at later_alert = None" "acknowledged_at later_alert = None"
    by (simp_all add: later_alert_def example_alert_def)
  from to_dict_round_trip [of resolved_example 900000000 _ _ 600001000] res
  have "from_dict (to_dict resolved_example 900000000) = Some resolved_example"
    and "to_dict resolved_example 900000000 ''is_active'' = Some (Val (PBool False))"
    and "to_dict resolved_example 900000000 ''duration_minutes'' =
      Some (Val (PFloat (Finite 10)))"
    by simp_all
  moreover from
    to_dict_round_trip [of "later_alert\<lparr>status := ACKNOWLEDGED, acknowledged_at := Some 300001000\<rparr>"
      900000000 _ _ _ 300001000] act
  have "to_dict (later_alert\<lparr>status := ACKNOWLEDGED, acknowledged_at := Some 300001000\<rparr>)
      900000000 ''duration_minutes'' = Some (Val (PFloat (Finite 5)))"
    by simp
  moreover from to_dict_round_trip [of later_alert 1200001000] act
  have "to_dict later_alert 1200001000 ''is_active'' = Some (Val (PBool True))"
    and "to_dict later_alert 1200001000 ''duration_minutes'' = Some (Val (PFloat (Finite 20)))"
    by simp_all
  ultimately show ?thesis using res by simp
qed

section \<open>Rules that are switched off\<close>

text \<open>
  Claim C9. A rule whose \<open>is_active\<close> flag is not true never triggers, whatever its
  type, conditions, cooldown and prior alerts, and whatever the context and the time.
\<close>

theorem inactive_rule_never_triggers:
  assumes "rule_is_active self \<noteq> Some True"
  shows "should_trigger self context now = Inr False"
  using assms by (simp add: should_trigger_def)

text \<open>
  C9 on a custom rule without cooldown: switched off it returns \<open>False\<close>, switched on
  it would trigger.
\<close>

theorem inactive_rule_never_triggers_witness:
  "rule_is_active inactive_rule = Some False \<and>
   should_trigger inactive_rule Map.empty 0 = Inr False \<and>
   should_trigger (inactive_rule\<lparr>rule_is_active := Some True\<rparr>) Map.empty 0 = Inr True"
proof -
  have off: "rule_is_active inactive_rule \<noteq> Some True"
    by (simp add: inactive_rule_def)
  have "should_trigger (inactive_rule\<lparr>rule_is_active := Some True\<rparr>) Map.empty 0 = Inr True"
    by (simp add: should_trigger_def inactive_rule_def cooldown_rule_def
        evaluate_custom_conditions_def)
  with inactive_rule_never_triggers [OF off, of Map.empty 0] show ?thesis
    by (simp add: inactive_rule_def)
qed

section \<open>Frame of \<open>Alert.acknowledge\<close>\<close>

text \<open>
  Claim C10. \<open>Alert.acknowledge\<close> writes \<open>status\<close>, \<open>acknowledged_at\<close>,
  \<open>acknowledged_by\<close> and \<open>updated_at\<close>; the other fourteen fields keep their values.
\<close>

theorem acknowledge_frame:
  "ident (acknowledge self user_id now now') = ident self \<and>
   alert_rule_id (acknowledge self user_id now now') = alert_rule_id self \<and>
   title (acknowledge self user_id now now') = title self \<and>
   message (acknowledge self user_id now now') = message self \<and>
   severity (acknowledge self user_id now now') = severity self \<and>
   context_data (acknowledge self user_id now now') = context_data self \<and>
   source_type (acknowledge self user_id now now') = source_type self \<and>
   source_id (acknowledge self user_id now now') = source_id self \<and>
   created_at (acknowledge self user_id now now') = created_at self \<and>
   resolved_at (acknowledge self user_id now now') = resolved_at self \<and>
   resolved_by (acknowledge self user_id now now') = resolved_by self \<and>
   organization_id (acknowledge self user_id now now') = organization_id self \<and>
   created_by (acknowledge self user_id now now') = created_by self \<and>
   pipeline_id (acknowledge self user_id now now') = pipeline_id self \<and>
   status (acknowledge self user_id now now') = ACKNOWLEDGED \<and>
   acknowledged_at (acknowledge self user_id now now') = Some now \<and>
   acknowledged_by (acknowledge self user_id now now') = Some user_id \<and>
   updated_at (acknowledge self user_id now now') = now'"
  by (simp add: acknowledge_def)

end
